theory Spec2Isabelle
  imports Main
begin

section \<open>Python values\<close>

text \<open>
  The datastreams of \<^verbatim>\<open>abstract_ros.py\<close> handle arbitrary Python objects: the messages
  given to a reader's callback, the arguments of the transform broadcaster. A value is
  \<^verbatim>\<open>None\<close>, a boolean, an integer, a string, or an instance of a class. An instance
  carries the name of its class, its truth value (what \<^verbatim>\<open>bool(obj)\<close> returns: True
  unless the class defines \<^verbatim>\<open>__bool__\<close> or \<^verbatim>\<open>__len__\<close>) and its attributes.
\<close>

datatype pyval =
    PyNone
  | PyBool bool
  | PyInt int
  | PyStr string
  | PyObj string bool "(string \<times> pyval) list"

text \<open>The truth value Python's \<^verbatim>\<open>if x:\<close> and \<^verbatim>\<open>not x\<close> test.\<close>

fun truthy :: "pyval \<Rightarrow> bool" where
  "truthy PyNone = False"
| "truthy (PyBool b) = b"
| "truthy (PyInt i) = (i \<noteq> 0)"
| "truthy (PyStr s) = (s \<noteq> [])"
| "truthy (PyObj cls b attrs) = b"

datatype py_error = AttributeError

section \<open>The middleware's endpoints\<close>

text \<open>
  \<^verbatim>\<open>rospy.Publisher(name, data_class)\<close> and \<^verbatim>\<open>rospy.Subscriber(name, data_class, cb)\<close>
  belong to the middleware. A publisher is modelled by the topic it was created on, its
  message class and the messages handed to its \<^verbatim>\<open>publish\<close>, oldest first; a
  subscriber by its topic and message class.
\<close>

record 'm Publisher =
  name :: string
  data_class :: string
  published :: "'m list"

record Subscriber =
  name :: string
  data_class :: string

definition rospy_Publisher :: "string \<Rightarrow> string \<Rightarrow> 'm Publisher" where
  "rospy_Publisher nm cls = \<lparr>Publisher.name = nm, Publisher.data_class = cls, published = []\<rparr>"

definition rospy_Subscriber :: "string \<Rightarrow> string \<Rightarrow> Subscriber" where
  "rospy_Subscriber nm cls = \<lparr>Subscriber.name = nm, Subscriber.data_class = cls\<rparr>"

definition Publisher_publish :: "'m \<Rightarrow> 'm Publisher \<Rightarrow> 'm Publisher" where
  "Publisher_publish m p = p\<lparr>published := published p @ [m]\<rparr>"

section \<open>AbstractROS\<close>

text \<open>
  What \<^verbatim>\<open>AbstractDatastream\<close> gives every datastream before \<^verbatim>\<open>initialize\<close> runs: the
  name of the component and the keyword arguments of the stream (strings here: topic
  names, suffixes and frame ids).
\<close>

record AbstractDatastream =
  component_name :: string
  kwargs :: "string \<rightharpoonup> string"

record AbstractROS = AbstractDatastream +
  topic_name :: string

subsection \<open>The regular expression of \<^verbatim>\<open>get_topic_name\<close>\<close>

text \<open>The character class \<^verbatim>\<open>[0-9]\<close>.\<close>

definition is_digit :: "char \<Rightarrow> bool" where
  "is_digit c = (c \<in> set ''0123456789'')"

text \<open>
  One attempt to match \<^verbatim>\<open>\.([0-9]+)\<close> at the start of a string: a literal dot, then
  the longest run of digits, which must not be empty. The result is group 1 and the text
  after the match.
\<close>

fun match_dot_digits :: "string \<Rightarrow> (string \<times> string) option" where
  "match_dot_digits [] = None"
| "match_dot_digits (c # cs) =
     (if c = CHR ''.'' \<and> takeWhile is_digit cs \<noteq> []
      then Some (takeWhile is_digit cs, dropWhile is_digit cs)
      else None)"

text \<open>
  \<^verbatim>\<open>re.sub(r'\.([0-9]+)', r'\1', s)\<close>: scan from the left; where the pattern matches,
  emit group 1 and go on after the match; elsewhere copy one character.
\<close>

function re_sub_dot_digits :: "string \<Rightarrow> string" where
  "re_sub_dot_digits [] = []"
| "re_sub_dot_digits (c # cs) =
     (case match_dot_digits (c # cs) of
        Some (g, r) \<Rightarrow> g @ re_sub_dot_digits r
      | None \<Rightarrow> c # re_sub_dot_digits cs)"
  by pat_completeness auto
termination
proof (relation "measure length")
  show "wf (measure length)" by simp
next
  fix c :: char and cs x2 g r
  assume "match_dot_digits (c # cs) = Some x2" and "(g, r) = x2"
  then have "r = dropWhile is_digit cs"
    by (auto split: if_splits)
  then have "length r \<le> length cs"
    by (simp add: length_dropWhile_le)
  then show "(r, c # cs) \<in> measure length" by simp
next
  fix c :: char and cs
  show "(cs, c # cs) \<in> measure length" by simp
qed

text \<open>\<^verbatim>\<open>s.replace('.', '/')\<close>.\<close>

definition replace_dot_slash :: "string \<Rightarrow> string" where
  "replace_dot_slash s = map (\<lambda>c. if c = CHR ''.'' then CHR ''/'' else c) s"

definition get_topic_name :: "'a AbstractDatastream_scheme \<Rightarrow> string" where
  "get_topic_name self =
     (let topic_name = re_sub_dot_digits (component_name self)
      in CHR ''/'' # replace_dot_slash topic_name)"

subsection \<open>initialize\<close>

definition AbstractROS_initialize :: "AbstractDatastream \<Rightarrow> AbstractROS" where
  "AbstractROS_initialize self =
     \<lparr>component_name = component_name self,
      kwargs = kwargs self,
      topic_name = (case kwargs self ''topic'' of
                      Some t \<Rightarrow> t
                    | None \<Rightarrow> get_topic_name self)\<rparr>"

subsection \<open>The topic name as the specification words it\<close>

text \<open>Delete each dot whose next character is a digit.\<close>

fun delete_dots_before_digits :: "string \<Rightarrow> string" where
  "delete_dots_before_digits [] = []"
| "delete_dots_before_digits [c] = [c]"
| "delete_dots_before_digits (c # d # cs) =
     (if c = CHR ''.'' \<and> is_digit d
      then delete_dots_before_digits (d # cs)
      else c # delete_dots_before_digits (d # cs))"

definition topic_name_spec :: "string \<Rightarrow> string" where
  "topic_name_spec cn =
     CHR ''/'' # map (\<lambda>c. if c = CHR ''.'' then CHR ''/'' else c) (delete_dots_before_digits cn)"

section \<open>ROSPublisher\<close>

record ROSPublisher = AbstractROS +
  topic :: "pyval Publisher"
  frame_id :: string
  sequence :: int

definition ROSPublisher_initialize :: "AbstractDatastream \<Rightarrow> string \<Rightarrow> ROSPublisher" where
  "ROSPublisher_initialize self0 ros_class =
     (let self = AbstractROS_initialize self0;
          suffixed = (case kwargs self ''topic_suffix'' of
                        Some sfx \<Rightarrow> topic_name self @ sfx
                      | None \<Rightarrow> topic_name self)
      in \<lparr>component_name = component_name self,
          kwargs = kwargs self,
          topic_name = topic_name self,
          ROSPublisher.topic = rospy_Publisher suffixed ros_class,
          ROSPublisher.frame_id = (case kwargs self ''frame_id'' of
                        Some f \<Rightarrow> f
                      | None \<Rightarrow> topic_name self),
          sequence = 0\<rparr>)"

record Header =
  seq :: int
  stamp :: pyval
  frame_id :: pyval

text \<open>
  \<^verbatim>\<open>get_ros_header\<close>: \<open>now\<close> is what \<^verbatim>\<open>rospy.Time.now()\<close> returns at the call. The
  method returns the header; the publisher is returned beside it, as the call leaves it.
\<close>

definition get_ros_header ::
  "pyval \<Rightarrow> 'a ROSPublisher_scheme \<Rightarrow> Header \<times> 'a ROSPublisher_scheme" where
  "get_ros_header now self =
     (\<lparr>seq = sequence self,
       stamp = now,
       Header.frame_id = PyStr (ROSPublisher.frame_id self)\<rparr>, self)"

definition publish :: "pyval \<Rightarrow> 'a ROSPublisher_scheme \<Rightarrow> 'a ROSPublisher_scheme" where
  "publish msg self =
     self\<lparr>ROSPublisher.topic := Publisher_publish msg (ROSPublisher.topic self),
          sequence := sequence self + 1\<rparr>"

text \<open>Any number of \<^verbatim>\<open>publish\<close> calls, in the order of the list.\<close>

fun publish_all :: "pyval list \<Rightarrow> 'a ROSPublisher_scheme \<Rightarrow> 'a ROSPublisher_scheme" where
  "publish_all [] self = self"
| "publish_all (msg # msgs) self = publish_all msgs (publish msg self)"

section \<open>ROSPublisherTF\<close>

record Transform =
  translation :: pyval
  rotation :: pyval

record TransformStamped =
  header :: Header
  child_frame_id :: pyval
  transform :: Transform

text \<open>
  Modelled from the spec: the class \<^verbatim>\<open>tfMessage\<close> of \<^verbatim>\<open>morse/middleware/ros/tfMessage.py\<close>,
  which is not among the sources: the platform's message struct of the \<^verbatim>\<open>/tf\<close> topic,
  constructed from the list of the stamped transforms it contains.
\<close>

record tfMessage =
  transforms :: "TransformStamped list"

text \<open>
  \<^verbatim>\<open>topic_tf\<close> is an attribute of the class, shared by its instances: \<^verbatim>\<open>None\<close> until the
  first \<^verbatim>\<open>initialize\<close>, then the one publisher on \<^verbatim>\<open>/tf\<close>. It is kept beside the
  fields of the instance.
\<close>

record ROSPublisherTF = ROSPublisher +
  topic_tf :: "tfMessage Publisher option"

text \<open>\<open>tf0\<close> is the value of the class attribute when \<^verbatim>\<open>initialize\<close> is called.\<close>

definition ROSPublisherTF_initialize ::
  "AbstractDatastream \<Rightarrow> string \<Rightarrow> tfMessage Publisher option \<Rightarrow> ROSPublisherTF" where
  "ROSPublisherTF_initialize self0 ros_class tf0 =
     (let self = ROSPublisher_initialize self0 ros_class
      in \<lparr>component_name = component_name self,
          kwargs = kwargs self,
          topic_name = topic_name self,
          ROSPublisher.topic = ROSPublisher.topic self,
          ROSPublisher.frame_id = ROSPublisher.frame_id self,
          sequence = sequence self,
          topic_tf = (case tf0 of
                        None \<Rightarrow> Some (rospy_Publisher ''/tf'' ''tfMessage'')
                      | Some p \<Rightarrow> Some p)\<rparr>)"

text \<open>Calling \<^verbatim>\<open>publish\<close> on \<^verbatim>\<open>None\<close> raises.\<close>

definition publish_tf ::
  "tfMessage \<Rightarrow> 'a ROSPublisherTF_scheme \<Rightarrow> py_error + 'a ROSPublisherTF_scheme" where
  "publish_tf msg self =
     (case topic_tf self of
        None \<Rightarrow> Inl AttributeError
      | Some p \<Rightarrow> Inr (self\<lparr>topic_tf := Some (Publisher_publish msg p)\<rparr>))"

text \<open>
  \<open>new_t\<close> is the value of the platform's constructor call \<^verbatim>\<open>TransformStamped()\<close>; the
  assignments follow in the order of the source.
\<close>

definition sendTransform ::
  "TransformStamped \<Rightarrow> pyval \<Rightarrow> pyval \<Rightarrow> pyval \<Rightarrow> pyval \<Rightarrow> pyval \<Rightarrow>
   'a ROSPublisherTF_scheme \<Rightarrow> py_error + 'a ROSPublisherTF_scheme" where
  "sendTransform new_t trn rot time child parent self =
     (let t = new_t;
          t = t\<lparr>header := (header t)\<lparr>Header.frame_id := parent\<rparr>\<rparr>;
          t = t\<lparr>header := (header t)\<lparr>stamp := time\<rparr>\<rparr>;
          t = t\<lparr>child_frame_id := child\<rparr>;
          t = t\<lparr>transform := (transform t)\<lparr>translation := trn\<rparr>\<rparr>;
          t = t\<lparr>transform := (transform t)\<lparr>rotation := rot\<rparr>\<rparr>;
          tfm = \<lparr>transforms = [t]\<rparr>
      in publish_tf tfm self)"

text \<open>
  \<open>local\<close> is the triple \<^verbatim>\<open>get_local_transform\<close> reads from the simulator's object
  (position, orientation as a quaternion, scale), \<open>now\<close> the middleware's clock.
\<close>

definition send_transform_robot ::
  "TransformStamped \<Rightarrow> pyval \<Rightarrow> pyval \<times> pyval \<times> pyval \<Rightarrow> pyval \<Rightarrow> pyval \<Rightarrow> pyval \<Rightarrow>
   'a ROSPublisherTF_scheme \<Rightarrow> py_error + 'a ROSPublisherTF_scheme" where
  "send_transform_robot new_t now local time child parent self =
     (case local of (trn, rot, scale) \<Rightarrow>
        let time = (if \<not> truthy time then now else time);
            child = (if \<not> truthy child then PyStr (ROSPublisher.frame_id self) else child);
            parent = (if \<not> truthy parent
                      then PyStr (case kwargs self ''parent_frame_id'' of
                                    Some f \<Rightarrow> f
                                  | None \<Rightarrow> ''base_link'')
                      else parent)
        in sendTransform new_t trn rot time child parent self)"

section \<open>ROSReader\<close>

record ROSReader = AbstractROS +
  topic :: Subscriber
  message :: pyval

definition ROSReader_initialize :: "AbstractDatastream \<Rightarrow> string \<Rightarrow> ROSReader" where
  "ROSReader_initialize self0 ros_class =
     (let self = AbstractROS_initialize self0
      in \<lparr>component_name = component_name self,
          kwargs = kwargs self,
          topic_name = topic_name self,
          ROSReader.topic = rospy_Subscriber (topic_name self) ros_class,
          message = PyNone\<rparr>)"

definition callback :: "pyval \<Rightarrow> 'a ROSReader_scheme \<Rightarrow> 'a ROSReader_scheme" where
  "callback msg self = (if message self = PyNone then self\<lparr>message := msg\<rparr> else self)"

text \<open>
  \<^verbatim>\<open>update\<close> is the hook a subclass overrides; \<^verbatim>\<open>default\<close> takes the one in force as
  \<open>upd\<close>. The reader's own does nothing.
\<close>

definition ROSReader_update :: "pyval \<Rightarrow> 'a ROSReader_scheme \<Rightarrow> 'a ROSReader_scheme" where
  "ROSReader_update msg self = self"

definition default ::
  "(pyval \<Rightarrow> 'a ROSReader_scheme \<Rightarrow> 'a ROSReader_scheme) \<Rightarrow>
   'a ROSReader_scheme \<Rightarrow> bool \<times> 'a ROSReader_scheme" where
  "default upd self =
     (if truthy (message self)
      then (let self = upd (message self) self;
                self = self\<lparr>message := PyNone\<rparr>
            in (True, self))
      else (False, self))"

text \<open>
  The life of a reader: the middleware delivers messages through \<^verbatim>\<open>callback\<close>, the
  simulator polls with \<^verbatim>\<open>default\<close>, in any interleaving. \<open>run\<close> returns what the
  \<^verbatim>\<open>default\<close> calls returned, in order, and the reader at the end.
\<close>

datatype reader_op = Callback pyval | Default

fun run ::
  "(pyval \<Rightarrow> 'a ROSReader_scheme \<Rightarrow> 'a ROSReader_scheme) \<Rightarrow> reader_op list \<Rightarrow>
   'a ROSReader_scheme \<Rightarrow> bool list \<times> 'a ROSReader_scheme" where
  "run upd [] self = ([], self)"
| "run upd (Callback msg # ops) self = run upd ops (callback msg self)"
| "run upd (Default # ops) self =
     (case default upd self of (b, self') \<Rightarrow>
        (case run upd ops self' of (bs, self'') \<Rightarrow> (b # bs, self'')))"

text \<open>The messages delivered by a sequence of operations, and the polls in it.\<close>

fun delivered :: "reader_op list \<Rightarrow> pyval list" where
  "delivered [] = []"
| "delivered (Callback msg # ops) = msg # delivered ops"
| "delivered (Default # ops) = delivered ops"

fun polls :: "reader_op list \<Rightarrow> nat" where
  "polls [] = 0"
| "polls (Callback msg # ops) = polls ops"
| "polls (Default # ops) = Suc (polls ops)"

text \<open>The unread messages a reader buffers: the content of its slot, if any.\<close>

definition unread :: "'a ROSReader_scheme \<Rightarrow> pyval list" where
  "unread self = (if message self = PyNone then [] else [message self])"

text \<open>
  What a subscriber delivers to its callback: an instance of its message class. The
  generated message classes define neither \<^verbatim>\<open>__bool__\<close> nor \<^verbatim>\<open>__len__\<close>, so the
  truth value of a message is True.
\<close>

fun ros_message :: "pyval \<Rightarrow> bool" where
  "ros_message (PyObj cls b attrs) = b"
| "ros_message v = False"

section \<open>Topic names\<close>

lemma not_digit_dot: "\<not> is_digit CHR ''.''"
  by (simp add: is_digit_def)

lemma delete_dots_digits_append:
  "\<forall>d \<in> set ds. is_digit d \<Longrightarrow>
   delete_dots_before_digits (ds @ r) = ds @ delete_dots_before_digits r"
proof (induction ds)
  case Nil
  then show ?case by simp
next
  case (Cons d ds)
  then have d: "d \<noteq> CHR ''.''" using not_digit_dot by auto
  show ?case
  proof (cases "ds @ r")
    case Nil
    then show ?thesis by simp
  next
    case (Cons e es)
    have "delete_dots_before_digits (d # e # es) = d # delete_dots_before_digits (e # es)"
      using d by simp
    then show ?thesis
      using Cons Cons.IH Cons.prems by (metis Cons_eq_appendI list.set_intros(2))
  qed
qed

lemma re_sub_is_delete: "re_sub_dot_digits s = delete_dots_before_digits s"
proof (induction s rule: re_sub_dot_digits.induct)
  case 1
  then show ?case by simp
next
  case (2 c cs)
  show ?case
  proof (cases "c = CHR ''.'' \<and> takeWhile is_digit cs \<noteq> []")
    case True
    let ?g = "takeWhile is_digit cs" and ?r = "dropWhile is_digit cs"
    have m: "match_dot_digits (c # cs) = Some (?g, ?r)" using True by simp
    have ih: "re_sub_dot_digits ?r = delete_dots_before_digits ?r"
      using "2.IH"(2) [OF m refl] .
    obtain d ds where cs: "cs = d # ds" and dd: "is_digit d"
      using True by (cases cs) (auto split: if_splits)
    have "delete_dots_before_digits (c # cs) = delete_dots_before_digits cs"
      using True cs dd by simp
    also have "cs = ?g @ ?r" by simp
    also have "delete_dots_before_digits (?g @ ?r) = ?g @ delete_dots_before_digits ?r"
      by (rule delete_dots_digits_append) (auto dest: set_takeWhileD)
    finally show ?thesis using m ih by simp
  next
    case False
    then have m: "match_dot_digits (c # cs) = None" by simp
    have ih: "re_sub_dot_digits cs = delete_dots_before_digits cs"
      using "2.IH"(1) [OF m] .
    have "delete_dots_before_digits (c # cs) = c # delete_dots_before_digits cs"
    proof (cases cs)
      case Nil
      then show ?thesis by simp
    next
      case (Cons d ds)
      then show ?thesis using False by (auto simp: takeWhile_eq_Nil_iff)
    qed
    then show ?thesis using m ih by simp
  qed
qed

text \<open>
  C2: for every component name, \<^verbatim>\<open>get_topic_name\<close> returns the name with each dot that
  stands immediately before a run of decimal digits deleted, every remaining dot replaced
  by a slash, and a slash in front; \<^verbatim>\<open>robot.001.sensor.001\<close> gives
  \<^verbatim>\<open>/robot001/sensor001\<close>.
\<close>

theorem get_topic_name_refines_spec:
  "get_topic_name self = topic_name_spec (component_name self)
   \<and> get_topic_name \<lparr>component_name = ''robot.001.sensor.001'', kwargs = kw\<rparr>
       = ''/robot001/sensor001''"
  by (simp add: get_topic_name_def topic_name_spec_def replace_dot_slash_def
        re_sub_is_delete is_digit_def)

text \<open>
  C8: when the keyword arguments contain \<^verbatim>\<open>topic\<close>, initialization sets the topic name
  to exactly that value, whatever the component is called, for the base class, the publisher
  and the reader alike; the derivation from the component name is used only when there is
  no such argument.
\<close>

theorem topic_kwarg_overrides_derivation:
  "(kwargs self ''topic'' = Some t \<longrightarrow>
      topic_name (AbstractROS_initialize self) = t
      \<and> topic_name (AbstractROS_initialize (self\<lparr>component_name := cn\<rparr>)) = t
      \<and> topic_name (ROSPublisher_initialize self ros_class) = t
      \<and> topic_name (ROSReader_initialize self ros_class) = t)
   \<and> (kwargs self ''topic'' = None \<longrightarrow>
      topic_name (AbstractROS_initialize self) = get_topic_name self)"
  by (simp add: AbstractROS_initialize_def ROSPublisher_initialize_def
        ROSReader_initialize_def Let_def)

theorem topic_kwarg_overrides_derivation_witness:
  "topic_name (AbstractROS_initialize
      \<lparr>component_name = ''robot.001'', kwargs = [''topic'' \<mapsto> ''/scan'']\<rparr>) = ''/scan''
   \<and> topic_name (ROSReader_initialize
      \<lparr>component_name = ''robot.001'', kwargs = [''topic'' \<mapsto> ''/scan'']\<rparr> ''String'') = ''/scan''
   \<and> topic_name (AbstractROS_initialize
      \<lparr>component_name = ''robot.001'', kwargs = Map.empty\<rparr>) = ''/robot001''"
proof -
  let ?a = "\<lparr>component_name = ''robot.001'', kwargs = [''topic'' \<mapsto> ''/scan'']\<rparr>"
  let ?b = "\<lparr>component_name = ''robot.001'', kwargs = Map.empty\<rparr>"
  have a: "kwargs ?a ''topic'' = Some ''/scan''" by simp
  have b: "kwargs ?b ''topic'' = None" by simp
  have "topic_name (AbstractROS_initialize ?a) = ''/scan''
        \<and> topic_name (ROSReader_initialize ?a ''String'') = ''/scan''"
    using topic_kwarg_overrides_derivation
      [where self = ?a and t = "''/scan''" and ros_class = "''String''"] a
    by blast
  moreover have "topic_name (AbstractROS_initialize ?b) = get_topic_name ?b"
    using topic_kwarg_overrides_derivation [where self = ?b] b by blast
  moreover have "get_topic_name ?b = ''/robot001''"
    by (simp add: get_topic_name_def replace_dot_slash_def is_digit_def)
  ultimately show ?thesis by simp
qed

section \<open>The publisher's sequence counter and header\<close>

lemma sequence_publish_all:
  "sequence (publish_all msgs self) = sequence self + int (length msgs)"
  by (induction msgs arbitrary: self) (simp_all add: publish_def)

lemma published_publish_all:
  "published (ROSPublisher.topic (publish_all msgs self))
   = published (ROSPublisher.topic self) @ msgs"
  by (induction msgs arbitrary: self) (simp_all add: publish_def Publisher_publish_def)

lemma frame_id_publish_all:
  "ROSPublisher.frame_id (publish_all msgs self) = ROSPublisher.frame_id self"
  by (induction msgs arbitrary: self) (simp_all add: publish_def)

lemma sequence_initialize: "sequence (ROSPublisher_initialize self0 ros_class) = 0"
  by (simp add: ROSPublisher_initialize_def Let_def)

lemma published_initialize:
  "published (ROSPublisher.topic (ROSPublisher_initialize self0 ros_class)) = []"
  by (simp add: ROSPublisher_initialize_def Let_def rospy_Publisher_def)

text \<open>
  C3: the sequence counter is 0 after initialization, every \<^verbatim>\<open>publish\<close> adds exactly 1
  to it, it never decreases over any sequence of \<^verbatim>\<open>publish\<close> calls, and after
  initialization it equals the number of messages published so far, which are the messages
  handed to the topic.
\<close>

theorem sequence_counts_published:
  "sequence (ROSPublisher_initialize self0 ros_class) = 0
   \<and> sequence (publish msg self) = sequence self + 1
   \<and> sequence self \<le> sequence (publish_all msgs self)
   \<and> sequence (publish_all msgs (ROSPublisher_initialize self0 ros_class)) = int (length msgs)
   \<and> published (ROSPublisher.topic (publish_all msgs (ROSPublisher_initialize self0 ros_class)))
       = msgs"
  by (simp add: sequence_initialize published_initialize sequence_publish_all
        published_publish_all publish_def)

text \<open>
  C7: \<^verbatim>\<open>get_ros_header\<close> returns a header whose \<^verbatim>\<open>seq\<close> is the current sequence counter
  and whose \<^verbatim>\<open>frame_id\<close> is the publisher's frame id, and leaves the publisher as it was;
  the frame id of an initialized publisher, after any number of publications, is the
  \<^verbatim>\<open>frame_id\<close> keyword argument if given and the topic name otherwise.
\<close>

theorem get_ros_header_fields:
  "seq (fst (get_ros_header now self)) = sequence self
   \<and> Header.frame_id (fst (get_ros_header now self)) = PyStr (ROSPublisher.frame_id self)
   \<and> snd (get_ros_header now self) = self
   \<and> ROSPublisher.frame_id (publish_all msgs (ROSPublisher_initialize self0 ros_class))
       = (case kwargs self0 ''frame_id'' of
            Some f \<Rightarrow> f
          | None \<Rightarrow> topic_name (ROSPublisher_initialize self0 ros_class))"
  by (simp add: get_ros_header_def frame_id_publish_all ROSPublisher_initialize_def Let_def
        AbstractROS_initialize_def split: option.splits)

section \<open>Broadcasting transforms\<close>

text \<open>
  C6: on a \<^verbatim>\<open>ROSPublisherTF\<close> whose class holds its \<^verbatim>\<open>/tf\<close> publisher,
  \<^verbatim>\<open>sendTransform\<close> hands that publisher a \<^verbatim>\<open>tfMessage\<close> of exactly one
  \<^verbatim>\<open>TransformStamped\<close>, whose \<^verbatim>\<open>header.frame_id\<close> is \<open>parent\<close>, \<^verbatim>\<open>header.stamp\<close>
  is \<open>time\<close>, \<^verbatim>\<open>child_frame_id\<close> is \<open>child\<close>, \<^verbatim>\<open>transform.translation\<close> is the
  translation and \<^verbatim>\<open>transform.rotation\<close> the rotation. The publisher that
  \<^verbatim>\<open>initialize\<close> creates is on the topic \<^verbatim>\<open>/tf\<close>, a later \<^verbatim>\<open>initialize\<close> keeps it, and
  so the message goes out on \<^verbatim>\<open>/tf\<close>.
\<close>

theorem sendTransform_publishes_on_tf:
  "(topic_tf self = Some p \<longrightarrow>
      sendTransform new_t trn rot time child parent self =
        Inr (self\<lparr>topic_tf := Some (p\<lparr>published := published p @
          [\<lparr>transforms =
              [\<lparr>header = \<lparr>seq = seq (header new_t), stamp = time, Header.frame_id = parent\<rparr>,
                child_frame_id = child,
                transform = \<lparr>translation = trn, rotation = rot\<rparr>\<rparr>]\<rparr>]\<rparr>)\<rparr>))
   \<and> topic_tf (ROSPublisherTF_initialize self0 ros_class None) =
        Some \<lparr>Publisher.name = ''/tf'', Publisher.data_class = ''tfMessage'', published = []\<rparr>
   \<and> topic_tf (ROSPublisherTF_initialize self0 ros_class (Some p)) = Some p
   \<and> (\<exists>self'. sendTransform new_t trn rot time child parent
                 (ROSPublisherTF_initialize self0 ros_class None) = Inr self'
        \<and> topic_tf self' =
          Some \<lparr>Publisher.name = ''/tf'', Publisher.data_class = ''tfMessage'',
                published =
                  [\<lparr>transforms =
                      [\<lparr>header = \<lparr>seq = seq (header new_t), stamp = time,
                                  Header.frame_id = parent\<rparr>,
                        child_frame_id = child,
                        transform = \<lparr>translation = trn, rotation = rot\<rparr>\<rparr>]\<rparr>]\<rparr>)"
  by (simp add: sendTransform_def publish_tf_def Publisher_publish_def Let_def
        ROSPublisherTF_initialize_def rospy_Publisher_def)

theorem sendTransform_publishes_on_tf_witness:
  "topic_tf (ROSPublisherTF_initialize
      \<lparr>component_name = ''robot.pose'', kwargs = Map.empty\<rparr> ''PoseStamped'' None)
     = Some (rospy_Publisher ''/tf'' ''tfMessage'')
   \<and> map_sum id topic_tf
       (sendTransform
          \<lparr>header = \<lparr>seq = 0, stamp = PyNone, Header.frame_id = PyStr ''''\<rparr>,
            child_frame_id = PyStr '''',
            transform = \<lparr>translation = PyNone, rotation = PyNone\<rparr>\<rparr>
          (PyObj ''Vector3'' True [(''x'', PyInt 1), (''y'', PyInt 2), (''z'', PyInt 0)])
          (PyObj ''Quaternion'' True
             [(''x'', PyInt 0), (''y'', PyInt 0), (''z'', PyInt 0), (''w'', PyInt 1)])
          (PyInt 5) (PyStr ''/robot/pose'') (PyStr ''base_link'')
          (ROSPublisherTF_initialize
             \<lparr>component_name = ''robot.pose'', kwargs = Map.empty\<rparr> ''PoseStamped'' None))
     = Inr (Some \<lparr>Publisher.name = ''/tf'', Publisher.data_class = ''tfMessage'',
            published =
              [\<lparr>transforms =
                  [\<lparr>header = \<lparr>seq = 0, stamp = PyInt 5,
                              Header.frame_id = PyStr ''base_link''\<rparr>,
                    child_frame_id = PyStr ''/robot/pose'',
                    transform =
                      \<lparr>translation = PyObj ''Vector3'' True
                         [(''x'', PyInt 1), (''y'', PyInt 2), (''z'', PyInt 0)],
                       rotation = PyObj ''Quaternion'' True
                         [(''x'', PyInt 0), (''y'', PyInt 0), (''z'', PyInt 0),
                          (''w'', PyInt 1)]\<rparr>\<rparr>]\<rparr>]\<rparr>)"
proof -
  let ?s = "ROSPublisherTF_initialize
      \<lparr>component_name = ''robot.pose'', kwargs = Map.empty\<rparr> ''PoseStamped'' None"
  have s: "topic_tf ?s = Some (rospy_Publisher ''/tf'' ''tfMessage'')"
    by (simp add: ROSPublisherTF_initialize_def Let_def)
  show ?thesis
    using s sendTransform_publishes_on_tf
      [where self = ?s and p = "rospy_Publisher ''/tf'' ''tfMessage''"
         and new_t = "\<lparr>header = \<lparr>seq = 0, stamp = PyNone, Header.frame_id = PyStr ''''\<rparr>,
            child_frame_id = PyStr '''',
            transform = \<lparr>translation = PyNone, rotation = PyNone\<rparr>\<rparr>"
         and trn = "PyObj ''Vector3'' True [(''x'', PyInt 1), (''y'', PyInt 2), (''z'', PyInt 0)]"
         and rot = "PyObj ''Quaternion'' True
             [(''x'', PyInt 0), (''y'', PyInt 0), (''z'', PyInt 0), (''w'', PyInt 1)]"
         and time = "PyInt 5" and child = "PyStr ''/robot/pose''"
         and parent = "PyStr ''base_link''"]
    by (simp add: rospy_Publisher_def)
qed

text \<open>
  C9: \<^verbatim>\<open>publish_tf\<close>, and with it \<^verbatim>\<open>sendTransform\<close> and \<^verbatim>\<open>send_transform_robot\<close>,
  leaves the sequence counter and every other field of the publisher as it was: only the
  class's \<^verbatim>\<open>/tf\<close> publisher receives the message. Where the class has no \<^verbatim>\<open>/tf\<close>
  publisher yet the call raises, with nothing assigned. The generic \<^verbatim>\<open>publish\<close>, unlike
  these, adds 1 to the sequence counter.
\<close>

theorem publish_tf_keeps_publisher:
  "(topic_tf self = None \<longrightarrow>
      publish_tf msg self = Inl AttributeError
      \<and> sendTransform new_t trn rot time child parent self = Inl AttributeError
      \<and> send_transform_robot new_t now local time child parent self = Inl AttributeError)
   \<and> (topic_tf self = Some p \<longrightarrow>
      (\<exists>self'. publish_tf msg self = Inr self'
          \<and> self'\<lparr>topic_tf := topic_tf self\<rparr> = self \<and> sequence self' = sequence self)
      \<and> (\<exists>self'. sendTransform new_t trn rot time child parent self = Inr self'
          \<and> self'\<lparr>topic_tf := topic_tf self\<rparr> = self \<and> sequence self' = sequence self)
      \<and> (\<exists>self'. send_transform_robot new_t now local time child parent self = Inr self'
          \<and> self'\<lparr>topic_tf := topic_tf self\<rparr> = self \<and> sequence self' = sequence self))
   \<and> sequence (publish m self) = sequence self + 1"
  by (cases local)
    (simp add: publish_tf_def sendTransform_def send_transform_robot_def Let_def publish_def)

theorem publish_tf_keeps_publisher_witness:
  "publish_tf \<lparr>transforms = []\<rparr>
     \<lparr>component_name = ''robot.pose'', kwargs = Map.empty, topic_name = ''/robot/pose'',
      ROSPublisher.topic = rospy_Publisher ''/robot/pose'' ''PoseStamped'',
      ROSPublisher.frame_id = ''/robot/pose'', sequence = 0, topic_tf = None\<rparr>
   = Inl AttributeError
   \<and> (\<exists>self'. publish_tf \<lparr>transforms = []\<rparr>
         (ROSPublisherTF_initialize
            \<lparr>component_name = ''robot.pose'', kwargs = Map.empty\<rparr> ''PoseStamped'' None)
         = Inr self'
       \<and> sequence self' = 0)"
proof -
  let ?u = "\<lparr>component_name = ''robot.pose'', kwargs = Map.empty, topic_name = ''/robot/pose'',
      ROSPublisher.topic = rospy_Publisher ''/robot/pose'' ''PoseStamped'',
      ROSPublisher.frame_id = ''/robot/pose'', sequence = 0, topic_tf = None\<rparr>"
  let ?s = "ROSPublisherTF_initialize
      \<lparr>component_name = ''robot.pose'', kwargs = Map.empty\<rparr> ''PoseStamped'' None"
  let ?m = "\<lparr>transforms = []\<rparr>"
  have u: "topic_tf ?u = None" by simp
  have s: "topic_tf ?s = Some (rospy_Publisher ''/tf'' ''tfMessage'')"
    by (simp add: ROSPublisherTF_initialize_def Let_def)
  have q: "sequence ?s = 0"
    by (simp add: ROSPublisherTF_initialize_def ROSPublisher_initialize_def Let_def)
  have "publish_tf ?m ?u = Inl AttributeError"
    using publish_tf_keeps_publisher [where self = ?u and msg = ?m] u by blast
  moreover have "\<exists>self'. publish_tf ?m ?s = Inr self' \<and> sequence self' = sequence ?s"
    using publish_tf_keeps_publisher
      [where self = ?s and msg = ?m and p = "rospy_Publisher ''/tf'' ''tfMessage''"] s
    by blast
  then have "\<exists>self'. publish_tf ?m ?s = Inr self' \<and> sequence self' = 0"
    using q by simp
  ultimately show ?thesis by simp
qed

section \<open>The reader's mailbox\<close>

text \<open>
  C1, as stated: a message arriving while an unread one is buffered replaces it. It does
  not: a reader that has received \<^verbatim>\<open>old\<close> and then \<^verbatim>\<open>new\<close>, with no \<^verbatim>\<open>default\<close> in
  between, holds \<^verbatim>\<open>old\<close>.
\<close>

theorem callback_latest_counterexample:
  "message (callback (PyObj ''String'' True [(''data'', PyStr ''new'')])
      (callback (PyObj ''String'' True [(''data'', PyStr ''old'')])
         (ROSReader_initialize
            \<lparr>component_name = ''robot.teleop'', kwargs = Map.empty\<rparr> ''String'')))
     = PyObj ''String'' True [(''data'', PyStr ''old'')]
   \<and> message (callback (PyObj ''String'' True [(''data'', PyStr ''new'')])
      (callback (PyObj ''String'' True [(''data'', PyStr ''old'')])
         (ROSReader_initialize
            \<lparr>component_name = ''robot.teleop'', kwargs = Map.empty\<rparr> ''String'')))
     \<noteq> PyObj ''String'' True [(''data'', PyStr ''new'')]"
  by (simp add: callback_def ROSReader_initialize_def Let_def)

text \<open>
  C1, amended: when \<^verbatim>\<open>callback\<close> is invoked while the slot is not \<^verbatim>\<open>None\<close>, the new
  message is silently dropped and the reader is left as it was, the slot still holding the
  older message; when the slot is \<^verbatim>\<open>None\<close>, the new message is stored in it.
\<close>

theorem callback_keeps_buffered:
  "(message self \<noteq> PyNone \<longrightarrow> callback msg self = self)
   \<and> (message self = PyNone \<longrightarrow> callback msg self = self\<lparr>message := msg\<rparr>)"
  by (simp add: callback_def)

theorem callback_keeps_buffered_witness:
  "callback (PyObj ''String'' True [(''data'', PyStr ''new'')])
     \<lparr>component_name = ''robot.teleop'', kwargs = Map.empty, topic_name = ''/robot/teleop'',
      ROSReader.topic = rospy_Subscriber ''/robot/teleop'' ''String'',
      message = PyObj ''String'' True [(''data'', PyStr ''old'')]\<rparr>
   = \<lparr>component_name = ''robot.teleop'', kwargs = Map.empty, topic_name = ''/robot/teleop'',
      ROSReader.topic = rospy_Subscriber ''/robot/teleop'' ''String'',
      message = PyObj ''String'' True [(''data'', PyStr ''old'')]\<rparr>
   \<and> callback (PyObj ''String'' True [(''data'', PyStr ''new'')])
     \<lparr>component_name = ''robot.teleop'', kwargs = Map.empty, topic_name = ''/robot/teleop'',
      ROSReader.topic = rospy_Subscriber ''/robot/teleop'' ''String'',
      message = PyNone\<rparr>
   = \<lparr>component_name = ''robot.teleop'', kwargs = Map.empty, topic_name = ''/robot/teleop'',
      ROSReader.topic = rospy_Subscriber ''/robot/teleop'' ''String'',
      message = PyObj ''String'' True [(''data'', PyStr ''new'')]\<rparr>"
  using callback_keeps_buffered
    [where msg = "PyObj ''String'' True [(''data'', PyStr ''new'')]"
       and self = "\<lparr>component_name = ''robot.teleop'', kwargs = Map.empty,
          topic_name = ''/robot/teleop'',
          ROSReader.topic = rospy_Subscriber ''/robot/teleop'' ''String'',
          message = PyObj ''String'' True [(''data'', PyStr ''old'')]\<rparr>"]
    callback_keeps_buffered
    [where msg = "PyObj ''String'' True [(''data'', PyStr ''new'')]"
       and self = "\<lparr>component_name = ''robot.teleop'', kwargs = Map.empty,
          topic_name = ''/robot/teleop'',
          ROSReader.topic = rospy_Subscriber ''/robot/teleop'' ''String'',
          message = PyNone\<rparr>"]
  by simp

lemma ros_message_truthy: "ros_message v \<Longrightarrow> truthy v"
  by (cases v) simp_all

text \<open>
  C4: a call to \<^verbatim>\<open>default\<close> when the slot holds a message passes that message to
  \<^verbatim>\<open>update\<close>, then sets the slot back to \<^verbatim>\<open>None\<close>, and returns True, and so it does
  right after the subscriber has delivered a message into an empty slot; a call when the
  slot is empty returns False and leaves all state unchanged.
\<close>

theorem default_consumes_message:
  "(ros_message (message self) \<longrightarrow>
      default upd self = (True, (upd (message self) self)\<lparr>message := PyNone\<rparr>))
   \<and> (ros_message msg \<and> message self = PyNone \<longrightarrow>
      default upd (callback msg self)
        = (True, (upd msg (callback msg self))\<lparr>message := PyNone\<rparr>))
   \<and> (message self = PyNone \<longrightarrow> default upd self = (False, self))"
  by (simp add: default_def callback_def Let_def ros_message_truthy)

theorem default_consumes_message_witness:
  "default ROSReader_update
     \<lparr>component_name = ''robot.teleop'', kwargs = Map.empty, topic_name = ''/robot/teleop'',
      ROSReader.topic = rospy_Subscriber ''/robot/teleop'' ''String'',
      message = PyObj ''String'' True [(''data'', PyStr ''go'')]\<rparr>
   = (True,
      \<lparr>component_name = ''robot.teleop'', kwargs = Map.empty, topic_name = ''/robot/teleop'',
       ROSReader.topic = rospy_Subscriber ''/robot/teleop'' ''String'',
       message = PyNone\<rparr>)
   \<and> default ROSReader_update
     (callback (PyObj ''String'' True [(''data'', PyStr ''go'')])
        \<lparr>component_name = ''robot.teleop'', kwargs = Map.empty,
         topic_name = ''/robot/teleop'',
         ROSReader.topic = rospy_Subscriber ''/robot/teleop'' ''String'',
         message = PyNone\<rparr>)
   = (True,
      \<lparr>component_name = ''robot.teleop'', kwargs = Map.empty, topic_name = ''/robot/teleop'',
       ROSReader.topic = rospy_Subscriber ''/robot/teleop'' ''String'',
       message = PyNone\<rparr>)
   \<and> default ROSReader_update
     \<lparr>component_name = ''robot.teleop'', kwargs = Map.empty, topic_name = ''/robot/teleop'',
      ROSReader.topic = rospy_Subscriber ''/robot/teleop'' ''String'',
      message = PyNone\<rparr>
   = (False,
      \<lparr>component_name = ''robot.teleop'', kwargs = Map.empty, topic_name = ''/robot/teleop'',
       ROSReader.topic = rospy_Subscriber ''/robot/teleop'' ''String'',
       message = PyNone\<rparr>)"
proof -
  let ?full = "\<lparr>component_name = ''robot.teleop'', kwargs = Map.empty,
      topic_name = ''/robot/teleop'',
      ROSReader.topic = rospy_Subscriber ''/robot/teleop'' ''String'',
      message = PyObj ''String'' True [(''data'', PyStr ''go'')]\<rparr>"
  let ?empty = "\<lparr>component_name = ''robot.teleop'', kwargs = Map.empty,
      topic_name = ''/robot/teleop'',
      ROSReader.topic = rospy_Subscriber ''/robot/teleop'' ''String'',
      message = PyNone\<rparr>"
  let ?go = "PyObj ''String'' True [(''data'', PyStr ''go'')]"
  have m: "ros_message ?go" by simp
  have f: "message ?full = ?go" by simp
  have e: "message ?empty = PyNone" by simp
  have c: "callback ?go ?empty = ?full" by (simp add: callback_def)
  have "default ROSReader_update ?full
        = (True, (ROSReader_update (message ?full) ?full)\<lparr>message := PyNone\<rparr>)"
    using default_consumes_message [where self = ?full and upd = ROSReader_update] m f
    by simp
  then have 1: "default ROSReader_update ?full = (True, ?empty)"
    by (simp add: ROSReader_update_def)
  have "default ROSReader_update (callback ?go ?empty)
        = (True, (ROSReader_update ?go (callback ?go ?empty))\<lparr>message := PyNone\<rparr>)"
    using default_consumes_message
      [where self = ?empty and upd = ROSReader_update and msg = ?go] m e
    by blast
  then have 2: "default ROSReader_update (callback ?go ?empty) = (True, ?empty)"
    using c by (simp add: ROSReader_update_def)
  have 3: "default ROSReader_update ?empty = (False, ?empty)"
    using default_consumes_message [where self = ?empty and upd = ROSReader_update] e
    by blast
  show ?thesis using 1 2 3 by simp
qed

lemma run_stuck:
  "message self \<noteq> PyNone \<Longrightarrow> \<not> truthy (message self) \<Longrightarrow>
   run upd ops self = (replicate (polls ops) False, self)"
proof (induction ops)
  case Nil
  then show ?case by simp
next
  case (Cons op ops)
  then show ?case by (cases op) (simp_all add: callback_def default_def)
qed

text \<open>
  C10: when the slot holds a message that is falsy though not \<^verbatim>\<open>None\<close>, \<^verbatim>\<open>default\<close>
  returns False and leaves the reader as it is, \<^verbatim>\<open>callback\<close> discards the incoming
  message, and so over every later sequence of deliveries and polls each poll returns False
  and the reader never changes: the message is never consumed. In any state, \<^verbatim>\<open>default\<close>
  returns True if and only if the buffered message is truthy.
\<close>

theorem falsy_message_blocks_reader:
  "(message self \<noteq> PyNone \<and> \<not> truthy (message self) \<longrightarrow>
      default upd self = (False, self)
      \<and> callback msg self = self
      \<and> run upd ops self = (replicate (polls ops) False, self))
   \<and> fst (default upd self) = truthy (message self)"
  by (simp add: run_stuck callback_def default_def Let_def)

theorem falsy_message_blocks_reader_witness:
  "run ROSReader_update
     [Callback (PyObj ''String'' True [(''data'', PyStr ''a'')]), Default,
      Callback (PyObj ''String'' True [(''data'', PyStr ''b'')]), Default]
     \<lparr>component_name = ''robot.teleop'', kwargs = Map.empty, topic_name = ''/robot/teleop'',
      ROSReader.topic = rospy_Subscriber ''/robot/teleop'' ''String'',
      message = PyStr ''''\<rparr>
   = ([False, False],
      \<lparr>component_name = ''robot.teleop'', kwargs = Map.empty, topic_name = ''/robot/teleop'',
       ROSReader.topic = rospy_Subscriber ''/robot/teleop'' ''String'',
       message = PyStr ''''\<rparr>)"
  using falsy_message_blocks_reader
    [where upd = ROSReader_update
       and ops = "[Callback (PyObj ''String'' True [(''data'', PyStr ''a'')]), Default,
                   Callback (PyObj ''String'' True [(''data'', PyStr ''b'')]), Default]"
       and self = "\<lparr>component_name = ''robot.teleop'', kwargs = Map.empty,
          topic_name = ''/robot/teleop'',
          ROSReader.topic = rospy_Subscriber ''/robot/teleop'' ''String'',
          message = PyStr ''''\<rparr>"]
  by simp

lemma unread_callback: "set (unread (callback msg self)) \<subseteq> set (unread self) \<union> {msg}"
  by (simp add: unread_def callback_def)

lemma unread_default: "set (unread (snd (default upd self))) \<subseteq> set (unread self)"
  by (simp add: unread_def default_def Let_def)

lemma unread_run:
  "set (unread (snd (run upd ops self))) \<subseteq> set (unread self) \<union> set (delivered ops)"
proof (induction ops arbitrary: self)
  case Nil
  then show ?case by simp
next
  case (Cons op ops)
  show ?case
  proof (cases op)
    case (Callback msg)
    then show ?thesis
      using Cons.IH [of "callback msg self"] unread_callback [of msg self] by auto
  next
    case Default
    obtain b s where d: "default upd self = (b, s)" by (cases "default upd self")
    then have "set (unread s) \<subseteq> set (unread self)"
      using unread_default [of upd self] by simp
    then show ?thesis
      using Cons.IH [of s] d Default by (auto split: prod.splits)
  qed
qed

lemma default_leaves_falsy: "\<not> truthy (message (snd (default upd self)))"
  by (simp add: default_def Let_def)

lemma run_polls_falsy:
  "\<not> truthy (message self) \<Longrightarrow>
   run upd (replicate k Default) self = (replicate k False, self)"
  by (induction k) (simp_all add: default_def)

lemma run_polls_once:
  "length (filter id (fst (run upd (replicate k Default) self))) \<le> 1"
proof (cases k)
  case 0
  then show ?thesis by simp
next
  case (Suc j)
  obtain b s where d: "default upd self = (b, s)" by (cases "default upd self")
  then have "\<not> truthy (message s)"
    using default_leaves_falsy [of upd self] by simp
  then have "run upd (replicate j Default) s = (replicate j False, s)"
    by (rule run_polls_falsy)
  then show ?thesis using Suc d by simp
qed

lemma run_append:
  "run upd (ops @ ops') self =
     (fst (run upd ops self) @ fst (run upd ops' (snd (run upd ops self))),
      snd (run upd ops' (snd (run upd ops self))))"
proof (induction ops arbitrary: self)
  case Nil
  then show ?case by simp
next
  case (Cons op ops)
  then show ?case by (cases op) (simp_all split: prod.splits)
qed

lemma run_two_polls:
  "fst (run upd [Default, Default] self) = [fst (default upd self), False]"
proof -
  obtain b s where d: "default upd self = (b, s)" by (cases "default upd self")
  then have "\<not> truthy (message s)"
    using default_leaves_falsy [of upd self] by simp
  then have "default upd s = (False, s)" by (simp add: default_def)
  then show ?thesis using d by simp
qed

lemma consumed_bound:
  "length (filter id (fst (run upd ops self)))
   \<le> length (delivered ops) + length (unread self)"
proof (induction ops arbitrary: self)
  case Nil
  then show ?case by simp
next
  case (Cons op ops)
  show ?case
  proof (cases op)
    case (Callback msg)
    have "length (unread (callback msg self)) \<le> Suc (length (unread self))"
      by (simp add: unread_def callback_def)
    then show ?thesis
      using Cons.IH [of "callback msg self"] Callback by simp
  next
    case Default
    show ?thesis
    proof (cases "truthy (message self)")
      case True
      then have d: "default upd self
                    = (True, (upd (message self) self)\<lparr>message := PyNone\<rparr>)"
        by (simp add: default_def Let_def)
      have u: "length (unread self) = 1" using True by (auto simp: unread_def)
      have "unread ((upd (message self) self)\<lparr>message := PyNone\<rparr>) = []"
        by (simp add: unread_def)
      then show ?thesis
        using Cons.IH [of "(upd (message self) self)\<lparr>message := PyNone\<rparr>"] d u Default
        by (auto split: prod.splits)
    next
      case False
      then have d: "default upd self = (False, self)" by (simp add: default_def)
      show ?thesis using Cons.IH [of self] d Default by (auto split: prod.splits)
    qed
  qed
qed

text \<open>
  C5: in every state a reader reaches from \<^verbatim>\<open>initialize\<close> by callbacks and polls, in any
  interleaving and number, at most one unread message is buffered. However many messages
  were delivered, polls that follow one another with no delivery between them consume at
  most one message, and the second of two such polls returns False; the polls that consume
  a message are never more than the deliveries; and what the slot buffers is one of the
  delivered messages.
\<close>

theorem reader_buffers_at_most_one:
  "length (filter id
      (fst (run upd (replicate k Default)
         (snd (run upd ops (ROSReader_initialize self0 ros_class)))))) \<le> 1
   \<and> fst (run upd (ops @ [Default, Default]) (ROSReader_initialize self0 ros_class))
       = fst (run upd (ops @ [Default]) (ROSReader_initialize self0 ros_class)) @ [False]
   \<and> length (filter id (fst (run upd ops (ROSReader_initialize self0 ros_class))))
       \<le> length (delivered ops)
   \<and> set (unread (snd (run upd ops (ROSReader_initialize self0 ros_class))))
       \<subseteq> set (delivered ops)"
proof -
  let ?init = "ROSReader_initialize self0 ros_class"
  have u: "unread ?init = []"
    by (simp add: unread_def ROSReader_initialize_def Let_def)
  have a: "length (filter id
             (fst (run upd (replicate k Default) (snd (run upd ops ?init))))) \<le> 1"
    by (rule run_polls_once)
  have b: "fst (run upd (ops @ [Default, Default]) ?init)
           = fst (run upd (ops @ [Default]) ?init) @ [False]"
    using run_two_polls [of upd "snd (run upd ops ?init)"]
    by (simp add: run_append split: prod.splits)
  have c: "length (filter id (fst (run upd ops ?init))) \<le> length (delivered ops)"
    using consumed_bound [of upd ops ?init] u by simp
  have d: "set (unread (snd (run upd ops ?init))) \<subseteq> set (delivered ops)"
    using unread_run [of upd ops ?init] u by simp
  show ?thesis using a b c d by blast
qed

end
